theory Spec2Isabelle
  imports Complex_Main "HOL-Library.Option_ord"
begin

section \<open>Data model\<close>

text \<open>
  The rows of the three tables the controller reads and writes
  (\<^verbatim>\<open>dallinger.models\<close>: Network, Node, Participant), restricted to the columns that
  \<^verbatim>\<open>experiment.py\<close> and \<^verbatim>\<open>heroku/clock.py\<close> touch. Primary keys are Python integers.
  The foreign keys of a node are nullable columns, hence optional. Times are seconds on the
  rational line; a participant's \<^verbatim>\<open>end_time\<close> is NULL until it is set.
\<close>

record network =
  net_id :: int
  role :: string
  full :: bool

record node =
  node_id :: int
  network_id :: "int option"
  participant_id :: "int option"
  failed :: bool

record participant =
  part_id :: int
  assignment_id :: string
  hit_id :: string
  status :: string
  creation_time :: rat
  end_time :: "rat option"

record database =
  network_table :: "network list"
  node_table :: "node list"
  participant_table :: "participant list"

text \<open>Every exception class that the modelled code can raise or let through.\<close>

datatype error =
  AttributeError
  | IndexError
  | KeyError
  | ValueError
  | RuntimeError
  | NotImplementedError
  | RequestException
  | TypeError
  | MTurkRequestError

section \<open>\<^verbatim>\<open>experiment.py\<close>: network allocation\<close>

text \<open>
  \<^verbatim>\<open>Experiment.networks(role, full)\<close>. The argument \<^verbatim>\<open>full\<close> is \<^verbatim>\<open>"all"\<close> (here \<open>None\<close>) or
  a boolean; the argument \<^verbatim>\<open>role\<close> is the string \<^verbatim>\<open>"all"\<close> or a role name. The
  \<^verbatim>\<open>ValueError\<close> branch of the source guards against any other value of \<^verbatim>\<open>full\<close>, which the
  type \<open>bool option\<close> excludes.
\<close>

definition networks :: "database \<Rightarrow> string \<Rightarrow> bool option \<Rightarrow> network list" where
  "networks db role_arg full_arg =
     (case full_arg of
        None \<Rightarrow>
          (if role_arg = ''all'' then network_table db
           else filter (\<lambda>net. role net = role_arg) (network_table db))
      | Some f \<Rightarrow>
          (if role_arg = ''all'' then filter (\<lambda>net. full net = f) (network_table db)
           else filter (\<lambda>net. role net = role_arg \<and> full net = f) (network_table db)))"

text \<open>
  \<^verbatim>\<open>Experiment.choose_network\<close>, the default policy: \<^verbatim>\<open>random.choice(networks)\<close>. The random
  draw is the parameter \<open>r\<close>, reduced to an index of the list; on an empty list
  \<^verbatim>\<open>random.choice\<close> raises \<^verbatim>\<open>IndexError\<close>.
\<close>

definition choose_network :: "nat \<Rightarrow> network list \<Rightarrow> participant \<Rightarrow> error + network" where
  "choose_network r nets p =
     (if nets = [] then Inl IndexError else Inr (nets ! (r mod length nets)))"

text \<open>
  The three lists that \<^verbatim>\<open>get_network_for_participant\<close> builds before it decides:
  the non-full networks ordered by id, the network ids of the participant's nodes, and the
  non-full networks whose id is not among them.
\<close>

definition networks_with_space :: "database \<Rightarrow> network list" where
  "networks_with_space db = sort_key net_id (filter (\<lambda>net. full net = False) (network_table db))"

definition networks_participated_in :: "database \<Rightarrow> participant \<Rightarrow> int option list" where
  "networks_participated_in db p =
     map network_id (filter (\<lambda>nd. participant_id nd = Some (part_id p)) (node_table db))"

definition legal_networks :: "database \<Rightarrow> participant \<Rightarrow> network list" where
  "legal_networks db p =
     filter (\<lambda>net. Some (net_id net) \<notin> set (networks_participated_in db p))
            (networks_with_space db)"

definition legal_practice_networks :: "database \<Rightarrow> participant \<Rightarrow> network list" where
  "legal_practice_networks db p = filter (\<lambda>net. role net = ''practice'') (legal_networks db p)"

text \<open>
  \<^verbatim>\<open>Experiment.get_network_for_participant\<close>. The policy is a parameter, as subclasses
  override \<^verbatim>\<open>choose_network\<close>; the result \<open>Inr None\<close> is Python's \<^verbatim>\<open>None\<close>. The calls of
  \<^verbatim>\<open>self.log\<close> only print and are left out.
\<close>

definition get_network_for_participant ::
  "(network list \<Rightarrow> participant \<Rightarrow> error + network) \<Rightarrow> database \<Rightarrow> participant
     \<Rightarrow> error + network option" where
  "get_network_for_participant policy db p =
     (if legal_networks db p = [] then Inr None
      else
        (case legal_practice_networks db p of
           chosen_network # _ \<Rightarrow> Inr (Some chosen_network)
         | [] \<Rightarrow>
             (case policy (legal_networks db p) p of
                Inl e \<Rightarrow> Inl e
              | Inr chosen_network \<Rightarrow> Inr (Some chosen_network))))"

text \<open>
  What the statements below call eligible: a stored network with \<^verbatim>\<open>full=False\<close> in which the
  participant has no node.
\<close>

definition has_node_in :: "database \<Rightarrow> participant \<Rightarrow> network \<Rightarrow> bool" where
  "has_node_in db p net =
     list_ex (\<lambda>nd. participant_id nd = Some (part_id p) \<and> network_id nd = Some (net_id net))
             (node_table db)"

definition eligible :: "database \<Rightarrow> participant \<Rightarrow> network \<Rightarrow> bool" where
  "eligible db p net = (net \<in> set (network_table db) \<and> \<not> full net \<and> \<not> has_node_in db p net)"

section \<open>\<^verbatim>\<open>experiment.py\<close>: recruitment, failure, completion\<close>

text \<open>
  The calls that leave the process: to the recruiter, to the hosting platform, to the
  labour market and to the experiment's own web server. They are recorded in the order in
  which they are issued. Console output (\<^verbatim>\<open>print\<close>, \<^verbatim>\<open>self.log\<close>, \<^verbatim>\<open>logger\<close>) is not
  recorded.
  \<^item> \<open>CloseRecruitment rc\<close>: \<^verbatim>\<open>self.recruiter().close_recruitment()\<close> with the recruiter \<open>rc\<close>;
  \<^item> \<open>HttpGet url\<close>: \<^verbatim>\<open>requests.get(url)\<close>;
  \<^item> \<open>Sleep n\<close>: \<^verbatim>\<open>time.sleep(n)\<close>;
  \<^item> \<open>Destroy app\<close>: \<^verbatim>\<open>HerokuApp(app).destroy()\<close>;
  \<^item> \<open>Export app local\<close>: \<^verbatim>\<open>export(app, local=local)\<close>;
  \<^item> \<open>PatchAutoRecruit app v\<close>: \<^verbatim>\<open>requests.patch\<close> of the config variables of the hosted
    application \<open>app\<close>, with \<^verbatim>\<open>auto_recruit\<close> set to \<open>v\<close>;
  \<^item> \<open>ExpireHit hit\<close>: \<^verbatim>\<open>conn.expire_hit(hit)\<close>;
  \<^item> \<open>PostNotification host event assignment\<close>: \<^verbatim>\<open>requests.post\<close> to
    \<^verbatim>\<open>"http://" + host + "/notifications"\<close> with the event type and the assignment id.
\<close>

datatype recruiter_class = HotAirRecruiter | BotRecruiter | MTurkLargeRecruiter | MTurkRecruiter

datatype call =
  CloseRecruitment recruiter_class
  | HttpGet string
  | Sleep nat
  | Destroy string
  | Export string bool
  | PatchAutoRecruit string bool
  | ExpireHit string
  | PostNotification string string string

record exp_state =
  store :: database
  calls :: "call list"

text \<open>
  \<^verbatim>\<open>config.get(key, None)\<close> of \<^verbatim>\<open>dallinger.config\<close> is a parameter: it raises (\<open>Inl\<close>) or
  returns the value, \<open>None\<close> when the key is not set.
\<close>

type_synonym config = "string \<Rightarrow> error + string option"

text \<open>
  The property \<^verbatim>\<open>Experiment.recruiter\<close>. Only the \<^verbatim>\<open>RuntimeError\<close> of the first
  \<^verbatim>\<open>config.get\<close> is caught.
\<close>

definition recruiter :: "config \<Rightarrow> error + recruiter_class" where
  "recruiter config =
     (case (case config ''mode'' of
              Inl e \<Rightarrow> (if e = RuntimeError then Inr False else Inl e)
            | Inr v \<Rightarrow> Inr (v = Some ''debug'')) of
        Inl e \<Rightarrow> Inl e
      | Inr debug_mode \<Rightarrow>
          (case config ''recruiter'' of
             Inl e \<Rightarrow> Inl e
           | Inr rec \<Rightarrow>
               if rec = Some ''bogus'' then Inl NotImplementedError
               else if debug_mode \<and> rec \<noteq> Some ''bots'' then Inr HotAirRecruiter
               else if rec = Some ''bots'' then Inr BotRecruiter
               else if rec = Some ''mturklarge'' then Inr MTurkLargeRecruiter
               else Inr MTurkRecruiter))"

text \<open>\<^verbatim>\<open>Experiment.recruit\<close>: the raised exception, if any, and the state afterwards.\<close>

definition recruit :: "config \<Rightarrow> exp_state \<Rightarrow> error option \<times> exp_state" where
  "recruit config s =
     (if networks (store s) ''all'' (Some False) = [] then
        (case recruiter config of
           Inl e \<Rightarrow> (Some e, s)
         | Inr rc \<Rightarrow> (None, s\<lparr>calls := calls s @ [CloseRecruitment rc]\<rparr>))
      else (None, s))"

text \<open>
  Modelled from the spec: \<^verbatim>\<open>Node.fail\<close> of \<^verbatim>\<open>dallinger.models\<close>, which is not among the
  sources. The data model says that failing a node sets its \<^verbatim>\<open>failed\<close> flag, is a no-op on
  a node that has already failed, and never removes the node. The node object is the row
  with its id.
\<close>

definition fail :: "node \<Rightarrow> database \<Rightarrow> database" where
  "fail nd db =
     db\<lparr>node_table :=
          map (\<lambda>m. if node_id m = node_id nd then m\<lparr>failed := True\<rparr> else m) (node_table db)\<rparr>"

text \<open>
  \<^verbatim>\<open>Experiment.fail_participant\<close>: the query for the participant's nodes with
  \<^verbatim>\<open>failed=False\<close>, then \<^verbatim>\<open>node.fail()\<close> on each node of the result.
\<close>

definition participant_nodes :: "database \<Rightarrow> participant \<Rightarrow> node list" where
  "participant_nodes db p =
     filter (\<lambda>nd. participant_id nd = Some (part_id p) \<and> failed nd = False) (node_table db)"

definition fail_participant :: "database \<Rightarrow> participant \<Rightarrow> database" where
  "fail_participant db p = foldl (\<lambda>d nd. fail nd d) db (participant_nodes db p)"

text \<open>
  Python's \<^verbatim>\<open>str.format\<close> with positional arguments, for templates built from plain text,
  the automatic field \<^verbatim>\<open>{}\<close> and the escapes \<^verbatim>\<open>{{\<close> and \<^verbatim>\<open>}}\<close>: each field takes the next
  argument (\<^verbatim>\<open>IndexError\<close> when none is left), a single brace is a \<^verbatim>\<open>ValueError\<close>, and
  arguments that no field asks for are ignored. Numbered and named fields are not part of
  this fragment; the one template of the source, \<^verbatim>\<open>'/summary'\<close>, has no brace at all.
\<close>

fun str_format :: "string \<Rightarrow> string list \<Rightarrow> error + string" where
  "str_format [] args = Inr []"
| "str_format [c] args =
     (if c = CHR ''{'' \<or> c = CHR ''}'' then Inl ValueError else Inr [c])"
| "str_format (c # d # rest) args =
     (if c = CHR ''{'' \<and> d = CHR ''}'' then
        (case args of
           [] \<Rightarrow> Inl IndexError
         | a # as \<Rightarrow> map_sum id (\<lambda>t. a @ t) (str_format rest as))
      else if (c = CHR ''{'' \<and> d = CHR ''{'') \<or> (c = CHR ''}'' \<and> d = CHR ''}'') then
        map_sum id (\<lambda>t. c # t) (str_format rest args)
      else if c = CHR ''{'' \<or> c = CHR ''}'' then Inl ValueError
      else map_sum id (\<lambda>t. c # t) (str_format (d # rest) args))"

text \<open>
  JSON values as \<^verbatim>\<open>resp.json()\<close> returns them; of an object with a repeated key Python keeps
  the last value.
\<close>

datatype json =
  JNull
  | JBool bool
  | JNum int
  | JStr string
  | JList "json list"
  | JObj "(string \<times> json) list"

text \<open>
  What the experiment class is given from outside: the URL of the hosted application
  (\<^verbatim>\<open>HerokuApp(app_id).url\<close>, from \<^verbatim>\<open>dallinger.heroku.tools\<close>), and the answer to a GET
  request, which may depend on the moment it is made, counted here in calls issued before
  it. The answer is the exception of \<^verbatim>\<open>requests.get\<close> or of \<^verbatim>\<open>resp.json()\<close>, or the
  decoded body.
\<close>

record world =
  heroku_url :: "string \<Rightarrow> string"
  requests_get :: "nat \<Rightarrow> string \<Rightarrow> error + json"

text \<open>
  \<^verbatim>\<open>Experiment.experiment_completed\<close>. \<^verbatim>\<open>ValueError\<close> and \<^verbatim>\<open>RequestException\<close> are caught
  and leave \<^verbatim>\<open>data = {}\<close>; \<^verbatim>\<open>data.get\<close> exists on objects only.
\<close>

definition experiment_completed ::
  "world \<Rightarrow> string \<Rightarrow> exp_state \<Rightarrow> (error + json) \<times> exp_state" where
  "experiment_completed w app_id s =
     (case str_format ''/summary'' [heroku_url w app_id] of
        Inl e \<Rightarrow> (Inl e, s)
      | Inr status_url \<Rightarrow>
          (let s' = s\<lparr>calls := calls s @ [HttpGet status_url]\<rparr> in
           case requests_get w (length (calls s)) status_url of
             Inl e \<Rightarrow>
               (if e = ValueError \<or> e = RequestException then (Inr (JBool False), s')
                else (Inl e, s'))
           | Inr (JObj kvs) \<Rightarrow>
               (case map_of (rev kvs) ''completed'' of
                  None \<Rightarrow> (Inr (JBool False), s')
                | Some v \<Rightarrow> (Inr v, s'))
           | Inr _ \<Rightarrow> (Inl AttributeError, s')))"

text \<open>\<^verbatim>\<open>Experiment.end_experiment\<close> and \<^verbatim>\<open>Experiment.retrieve_data\<close>.\<close>

definition end_experiment :: "string \<Rightarrow> exp_state \<Rightarrow> exp_state" where
  "end_experiment app_id s = s\<lparr>calls := calls s @ [Destroy app_id]\<rparr>"

definition retrieve_data :: "(string \<rightharpoonup> string) \<Rightarrow> string \<Rightarrow> exp_state \<Rightarrow> exp_state" where
  "retrieve_data exp_config app_id s =
     s\<lparr>calls := calls s @ [Export app_id (exp_config ''mode'' = Some ''debug'')]\<rparr>"

text \<open>
  The loop \<^verbatim>\<open>while self.experiment_completed() is False: time.sleep(30)\<close>, with a bound on
  the number of polls: \<open>None\<close> says that the loop is still running after that many. The
  loop goes on exactly while the value is the object \<^verbatim>\<open>False\<close>.
\<close>

fun wait_for_completion ::
  "nat \<Rightarrow> world \<Rightarrow> string \<Rightarrow> exp_state \<Rightarrow> (error option \<times> exp_state) option" where
  "wait_for_completion 0 w app_id s = None"
| "wait_for_completion (Suc n) w app_id s =
     (case experiment_completed w app_id s of
        (Inl e, s') \<Rightarrow> Some (Some e, s')
      | (Inr v, s') \<Rightarrow>
          if v = JBool False then wait_for_completion n w app_id (s'\<lparr>calls := calls s' @ [Sleep 30]\<rparr>)
          else Some (None, s'))"

text \<open>\<^verbatim>\<open>Experiment._finish_experiment\<close>, with the bound on the polls of its loop.\<close>

definition finish_experiment ::
  "nat \<Rightarrow> world \<Rightarrow> (string \<rightharpoonup> string) \<Rightarrow> string \<Rightarrow> exp_state
     \<Rightarrow> (error option \<times> exp_state) option" where
  "finish_experiment polls w exp_config app_id s =
     (if exp_config ''mode'' \<noteq> Some ''debug'' then
        (case wait_for_completion polls w app_id s of
           None \<Rightarrow> None
         | Some (Some e, s') \<Rightarrow> Some (Some e, s')
         | Some (None, s') \<Rightarrow>
             Some (None, retrieve_data exp_config app_id (end_experiment app_id s')))
      else Some (None, retrieve_data exp_config app_id s))"

section \<open>\<^verbatim>\<open>heroku/clock.py\<close>: the watchdog\<close>

text \<open>
  What the clock process is given from outside: the process environment
  (\<^verbatim>\<open>os.environ\<close>), the two configuration values it reads (the duration of a HIT in hours
  and the bad-data threshold), and the answer of the labour market to
  \<^verbatim>\<open>conn.get_assignment\<close>: an exception or the list of assignments found.
\<close>

record assignment =
  AssignmentStatus :: string

record clock_env =
  environ :: "string \<rightharpoonup> string"
  duration :: rat
  bad_data_threshold :: int
  get_assignment :: "string \<Rightarrow> error + assignment list"

text \<open>
  The state of the clock process: the participant rows as its session holds them, the rows
  as of the last commit, and the calls sent so far.
\<close>

record clock_state =
  session :: "participant list"
  committed :: "participant list"
  sent :: "call list"

text \<open>Two statements in sequence: an exception of the first skips the second.\<close>

definition and_then ::
  "('s \<Rightarrow> error option \<times> 's) \<Rightarrow> ('s \<Rightarrow> error option \<times> 's) \<Rightarrow> 's \<Rightarrow> error option \<times> 's" where
  "and_then f g s = (case f s of (Some e, s') \<Rightarrow> (Some e, s') | (None, s') \<Rightarrow> g s')"

text \<open>\<^verbatim>\<open>str.lower\<close> on ASCII text.\<close>

definition lower_char :: "char \<Rightarrow> char" where
  "lower_char c =
     (let n = (of_char c :: nat) in if 65 \<le> n \<and> n \<le> 90 then char_of (n + 32) else c)"

definition lower :: "string \<Rightarrow> string" where
  "lower str = map lower_char str"

text \<open>
  \<^verbatim>\<open>set_autorecruit\<close>: \<^verbatim>\<open>os.environ['HOST']\<close> raises \<^verbatim>\<open>KeyError\<close> when the variable is not
  set; the application name is the host without its last fourteen characters
  (\<^verbatim>\<open>host[:-len(".herokuapp.com")]\<close>).
\<close>

definition set_autorecruit :: "clock_env \<Rightarrow> bool \<Rightarrow> clock_state \<Rightarrow> error option \<times> clock_state" where
  "set_autorecruit env autorecruit s =
     (case environ env ''HOST'' of
        None \<Rightarrow> (Some KeyError, s)
      | Some host \<Rightarrow>
          (None, s\<lparr>sent := sent s @
             [PatchAutoRecruit (take (length host - length ''.herokuapp.com'') host) autorecruit]\<rparr>))"

text \<open>
  \<^verbatim>\<open>expire_hit\<close>: \<^verbatim>\<open>Participant.query.get(1)\<close> is the row with primary key 1, or \<^verbatim>\<open>None\<close>,
  whose attribute \<^verbatim>\<open>hit_id\<close> does not exist.
\<close>

definition expire_hit :: "clock_state \<Rightarrow> error option \<times> clock_state" where
  "expire_hit s =
     (case find (\<lambda>p. part_id p = 1) (session s) of
        None \<Rightarrow> (Some AttributeError, s)
      | Some p \<Rightarrow> (None, s\<lparr>sent := sent s @ [ExpireHit (hit_id p)]\<rparr>))"

definition send_notification ::
  "clock_env \<Rightarrow> string \<Rightarrow> string \<Rightarrow> clock_state \<Rightarrow> error option \<times> clock_state" where
  "send_notification env event_type assignment s =
     (case environ env ''HOST'' of
        None \<Rightarrow> (Some KeyError, s)
      | Some host \<Rightarrow>
          (None, s\<lparr>sent := sent s @ [PostNotification host event_type assignment]\<rparr>))"

text \<open>
  The \<^verbatim>\<open>try\<close> block of \<^verbatim>\<open>check_for_missed_notifications\<close>: the status of the first
  assignment found, and \<^verbatim>\<open>None\<close> after any exception, that of the query or the
  \<^verbatim>\<open>IndexError\<close> of \<^verbatim>\<open>[0]\<close> on an empty result.
\<close>

definition assignment_status :: "clock_env \<Rightarrow> participant \<Rightarrow> string option" where
  "assignment_status env p =
     (case get_assignment env (assignment_id p) of
        Inl e \<Rightarrow> None
      | Inr [] \<Rightarrow> None
      | Inr (a # _) \<Rightarrow> Some (AssignmentStatus a))"

text \<open>\<^verbatim>\<open>p.status = v\<close> on the session's object for the row, and \<^verbatim>\<open>session.commit()\<close>.\<close>

definition set_status :: "participant \<Rightarrow> string \<Rightarrow> clock_state \<Rightarrow> clock_state" where
  "set_status p v s =
     s\<lparr>session := map (\<lambda>q. if part_id q = part_id p then q\<lparr>status := v\<rparr> else q) (session s)\<rparr>"

definition commit :: "clock_state \<Rightarrow> clock_state" where
  "commit s = s\<lparr>committed := session s\<rparr>"

text \<open>The last branch of the emergency code: shut everything down.\<close>

definition shut_down :: "clock_env \<Rightarrow> participant \<Rightarrow> clock_state \<Rightarrow> error option \<times> clock_state" where
  "shut_down env p =
     and_then (set_autorecruit env False)
       (and_then expire_hit (send_notification env ''NotificationMissing'' (assignment_id p)))"

text \<open>
  The emergency code that \<^verbatim>\<open>check_for_missed_notifications\<close> runs for a participant who
  has been working for too long. The status \<^verbatim>\<open>None\<close> of a failed query is in neither list
  and equals no string, so it takes the last branch.
\<close>

definition emergency :: "clock_env \<Rightarrow> participant \<Rightarrow> clock_state \<Rightarrow> error option \<times> clock_state" where
  "emergency env p s =
     (case assignment_status env p of
        None \<Rightarrow> shut_down env p s
      | Some st \<Rightarrow>
          if st = ''Approved'' \<or> st = ''Rejected'' then
            (None, commit (set_status p (lower st) s))
          else if st = ''Submitted'' then
            send_notification env ''AssignmentSubmitted'' (assignment_id p) s
          else shut_down env p s)"

text \<open>
  The loop over the working participants. Elapsed time and duration are in seconds; the
  grace period is the two minutes of the source.
\<close>

definition too_long :: "clock_env \<Rightarrow> rat \<Rightarrow> participant \<Rightarrow> bool" where
  "too_long env current_time p = (current_time - creation_time p > duration env * 60 * 60 + 120)"

fun missed_loop ::
  "clock_env \<Rightarrow> rat \<Rightarrow> participant list \<Rightarrow> clock_state \<Rightarrow> error option \<times> clock_state" where
  "missed_loop env current_time [] s = (None, s)"
| "missed_loop env current_time (p # ps) s =
     (if too_long env current_time p then
        (case emergency env p s of
           (Some e, s') \<Rightarrow> (Some e, s')
         | (None, s') \<Rightarrow> missed_loop env current_time ps s')
      else missed_loop env current_time ps s)"

definition check_for_missed_notifications ::
  "clock_env \<Rightarrow> rat \<Rightarrow> clock_state \<Rightarrow> error option \<times> clock_state" where
  "check_for_missed_notifications env current_time s =
     missed_loop env current_time (filter (\<lambda>p. status p = ''working'') (session s)) s"

text \<open>
  Python's slice \<^verbatim>\<open>xs[i:]\<close>: a negative start counts from the end and stops at the front of
  the list.
\<close>

definition slice_from :: "int \<Rightarrow> 'a list \<Rightarrow> 'a list" where
  "slice_from i xs =
     (if i < 0 then drop (nat (int (length xs) + i)) xs else drop (nat i) xs)"

text \<open>
  \<^verbatim>\<open>participants.sort(key=lambda x: x.end_time)\<close>: a stable sort; comparing a time with
  \<^verbatim>\<open>None\<close> raises \<^verbatim>\<open>TypeError\<close>, which any sort of a list that holds both must do.
\<close>

definition sort_by_end_time :: "participant list \<Rightarrow> error + participant list" where
  "sort_by_end_time ps =
     (if list_ex (\<lambda>p. end_time p = None) ps \<and> list_ex (\<lambda>p. end_time p \<noteq> None) ps
      then Inl TypeError
      else Inr (sort_key end_time ps))"

text \<open>The participants that \<^verbatim>\<open>check_for_bad_data\<close> looks at, and the check itself.\<close>

definition recent_participants :: "clock_env \<Rightarrow> clock_state \<Rightarrow> error + participant list" where
  "recent_participants env s =
     (case sort_by_end_time (filter (\<lambda>p. status p \<noteq> ''working'') (session s)) of
        Inl e \<Rightarrow> Inl e
      | Inr participants \<Rightarrow> Inr (slice_from (- bad_data_threshold env) participants))"

definition check_for_bad_data :: "clock_env \<Rightarrow> clock_state \<Rightarrow> error option \<times> clock_state" where
  "check_for_bad_data env s =
     (case recent_participants env s of
        Inl e \<Rightarrow> (Some e, s)
      | Inr participants \<Rightarrow>
          if list_all (\<lambda>p. status p = ''bad_data'') participants
          then and_then (set_autorecruit env False) expire_hit s
          else (None, s))"

section \<open>The specification's words\<close>

text \<open>
  Two notions that the specification uses and the code does not compute as such, written
  after the specification: the \<open>n\<close> most recently terminated participants (``ordered by end
  time descending, truncated to N''), and the most recent assignment that is still open,
  that of the working participant created last.
\<close>

definition spec_most_recent_terminated :: "nat \<Rightarrow> participant list \<Rightarrow> participant list" where
  "spec_most_recent_terminated n ps =
     take n (rev (sort_key end_time (filter (\<lambda>p. status p \<noteq> ''working'') ps)))"

definition spec_most_recent_open :: "participant list \<Rightarrow> participant option" where
  "spec_most_recent_open ps =
     (case rev (sort_key creation_time (filter (\<lambda>p. status p = ''working'') ps)) of
        [] \<Rightarrow> None
      | p # _ \<Rightarrow> Some p)"

section \<open>Example states\<close>

text \<open>
  A small store with two practice networks and two experiment networks, one of them full,
  in which participant 7 holds a live node in network 1 and a failed node in network 4; a
  store whose networks are all full; a clock process with three overdue working
  participants whose assignments the labour market reports as approved, as submitted, and
  not at all; a clock process with three participants who ended with bad data and a fourth,
  recruited under another HIT, who is still working; and a hosting platform whose status
  endpoint reports completion and that answers no other URL.
\<close>

definition example_db :: database where
  "example_db =
     \<lparr>network_table =
        [\<lparr>net_id = 3, role = ''experiment'', full = False\<rparr>,
         \<lparr>net_id = 2, role = ''practice'', full = False\<rparr>,
         \<lparr>net_id = 1, role = ''practice'', full = False\<rparr>,
         \<lparr>net_id = 4, role = ''experiment'', full = True\<rparr>],
      node_table =
        [\<lparr>node_id = 1, network_id = Some 1, participant_id = Some 7, failed = False\<rparr>,
         \<lparr>node_id = 2, network_id = Some 2, participant_id = Some 8, failed = False\<rparr>,
         \<lparr>node_id = 3, network_id = Some 4, participant_id = Some 7, failed = True\<rparr>],
      participant_table = []\<rparr>"

definition example_participant :: participant where
  "example_participant =
     \<lparr>part_id = 7, assignment_id = ''A7'', hit_id = ''H1'', status = ''working'',
      creation_time = 0, end_time = None\<rparr>"

definition full_db :: database where
  "full_db =
     \<lparr>network_table =
        [\<lparr>net_id = 1, role = ''practice'', full = True\<rparr>,
         \<lparr>net_id = 2, role = ''experiment'', full = True\<rparr>],
      node_table = [],
      participant_table = []\<rparr>"

definition example_config :: config where
  "example_config key = Inr (if key = ''mode'' then Some ''sandbox'' else None)"

definition example_env :: clock_env where
  "example_env =
     \<lparr>environ = [''HOST'' \<mapsto> ''dlgr-abc.herokuapp.com''],
      duration = 1,
      bad_data_threshold = 3,
      get_assignment =
        (\<lambda>a. if a = ''A1'' then Inr [\<lparr>AssignmentStatus = ''Approved''\<rparr>]
             else if a = ''A2'' then Inr [\<lparr>AssignmentStatus = ''Submitted''\<rparr>]
             else Inl MTurkRequestError)\<rparr>"

definition worker :: "int \<Rightarrow> string \<Rightarrow> participant" where
  "worker i a =
     \<lparr>part_id = i, assignment_id = a, hit_id = ''H1'', status = ''working'',
      creation_time = 0, end_time = None\<rparr>"

definition working_state :: clock_state where
  "working_state =
     \<lparr>session = [worker 1 ''A1'', worker 2 ''A2'', worker 3 ''A3''],
      committed = [worker 1 ''A1'', worker 2 ''A2'', worker 3 ''A3''],
      sent = []\<rparr>"

definition finished :: "int \<Rightarrow> string \<Rightarrow> rat \<Rightarrow> participant" where
  "finished i a t =
     \<lparr>part_id = i, assignment_id = a, hit_id = ''H1'', status = ''bad_data'',
      creation_time = 0, end_time = Some t\<rparr>"

definition latecomer :: participant where
  "latecomer =
     \<lparr>part_id = 4, assignment_id = ''A4'', hit_id = ''H2'', status = ''working'',
      creation_time = 40, end_time = None\<rparr>"

definition bad_data_state :: clock_state where
  "bad_data_state =
     \<lparr>session = [finished 1 ''A1'' 10, finished 3 ''A3'' 30, finished 2 ''A2'' 20, latecomer],
      committed = [finished 1 ''A1'' 10, finished 3 ''A3'' 30, finished 2 ''A2'' 20, latecomer],
      sent = []\<rparr>"

definition example_world :: world where
  "example_world =
     \<lparr>heroku_url = (\<lambda>app. ''https://dlgr-'' @ app @ ''.herokuapp.com''),
      requests_get =
        (\<lambda>n url. if url = ''https://dlgr-abc.herokuapp.com/summary''
                  then Inr (JObj [(''completed'', JBool True)])
                  else Inl RequestException)\<rparr>"

section \<open>Allocation: proofs\<close>

lemma set_legal_networks:
  "set (legal_networks db p) = {net. eligible db p net}"
  by (auto simp: legal_networks_def networks_with_space_def networks_participated_in_def
      eligible_def has_node_in_def list_ex_iff image_iff)

lemma legal_networks_empty_iff:
  "(legal_networks db p = []) = (\<not> (\<exists>net \<in> set (network_table db). eligible db p net))"
proof -
  have "(legal_networks db p = []) = (set (legal_networks db p) = {})" by simp
  also have "\<dots> = (\<not> (\<exists>net \<in> set (network_table db). eligible db p net))"
    unfolding set_legal_networks by (auto simp: eligible_def)
  finally show ?thesis .
qed

lemma choose_network_member:
  "nets \<noteq> [] \<Longrightarrow> \<exists>net \<in> set nets. choose_network r nets p = Inr net"
  by (simp add: choose_network_def)

lemma legal_practice_subset:
  "net \<in> set (legal_practice_networks db p) \<Longrightarrow> eligible db p net \<and> role net = ''practice''"
  using set_legal_networks [of db p] by (auto simp: legal_practice_networks_def)

lemma set_legal_practice_networks:
  "set (legal_practice_networks db p) = {net. eligible db p net \<and> role net = ''practice''}"
  using set_legal_networks [of db p] by (auto simp: legal_practice_networks_def)

lemma sorted_legal_practice_networks:
  "sorted (map net_id (legal_practice_networks db p))"
  by (simp add: legal_practice_networks_def legal_networks_def networks_with_space_def
      sorted_filter)

text \<open>
  Claim C2. With the default policy and whatever the random draw, for every participant and
  every store, \<^verbatim>\<open>get_network_for_participant\<close> raises nothing; a network it returns is
  stored, has \<^verbatim>\<open>full=False\<close> and holds no node of the participant; and it returns \<^verbatim>\<open>None\<close>
  exactly when the store has no such network.
\<close>

theorem get_network_for_participant_eligible:
  "(\<forall>e. get_network_for_participant (choose_network r) db p \<noteq> Inl e) \<and>
   (\<forall>net. get_network_for_participant (choose_network r) db p = Inr (Some net)
       \<longrightarrow> eligible db p net) \<and>
   ((get_network_for_participant (choose_network r) db p = Inr None)
       = (\<not> (\<exists>net \<in> set (network_table db). eligible db p net)))"
proof (cases "legal_networks db p = []")
  case True
  then have "get_network_for_participant (choose_network r) db p = Inr None"
    by (simp add: get_network_for_participant_def)
  with True show ?thesis by (simp add: legal_networks_empty_iff)
next
  case False
  note nonempty = this
  show ?thesis
  proof (cases "legal_practice_networks db p")
    case Nil
    from choose_network_member [OF nonempty] obtain net where
      net: "net \<in> set (legal_networks db p)"
        "choose_network r (legal_networks db p) p = Inr net" by blast
    then have res: "get_network_for_participant (choose_network r) db p = Inr (Some net)"
      using nonempty Nil by (simp add: get_network_for_participant_def)
    from net(1) have "eligible db p net" by (simp add: set_legal_networks)
    with res nonempty show ?thesis by (simp add: legal_networks_empty_iff)
  next
    case (Cons c cs)
    then have res: "get_network_for_participant (choose_network r) db p = Inr (Some c)"
      using nonempty by (simp add: get_network_for_participant_def)
    from Cons have "eligible db p c" using legal_practice_subset [of c db p] by simp
    with res nonempty show ?thesis by (simp add: legal_networks_empty_iff)
  qed
qed

theorem get_network_for_participant_eligible_witness:
  "get_network_for_participant (choose_network 5) example_db example_participant
     = Inr (Some \<lparr>net_id = 2, role = ''practice'', full = False\<rparr>)
   \<and> eligible example_db example_participant \<lparr>net_id = 2, role = ''practice'', full = False\<rparr>
   \<and> (\<exists>net \<in> set (network_table example_db). eligible example_db example_participant net)"
proof -
  have r: "get_network_for_participant (choose_network 5) example_db example_participant
     = Inr (Some \<lparr>net_id = 2, role = ''practice'', full = False\<rparr>)"
    by (simp add: get_network_for_participant_def legal_networks_def
        legal_practice_networks_def networks_with_space_def networks_participated_in_def
        eligible_def has_node_in_def example_db_def example_participant_def)
  with get_network_for_participant_eligible [of 5 example_db example_participant]
  show ?thesis by simp
qed

text \<open>
  Claim C3. Whenever some eligible network has the role practice, the result is the first
  eligible practice network in the order of ids, an eligible practice network of least id,
  and this for every policy, the policy not being asked.
\<close>

theorem practice_networks_first:
  assumes "eligible db p net" and "role net = ''practice''"
  shows "\<exists>chosen rest. legal_practice_networks db p = chosen # rest
           \<and> get_network_for_participant policy db p = Inr (Some chosen)
           \<and> eligible db p chosen \<and> role chosen = ''practice''
           \<and> (\<forall>other. eligible db p other \<and> role other = ''practice''
                 \<longrightarrow> net_id chosen \<le> net_id other)"
proof -
  from assms have mem: "net \<in> set (legal_practice_networks db p)"
    by (simp add: set_legal_practice_networks)
  then obtain chosen rest where eq: "legal_practice_networks db p = chosen # rest"
    by (cases "legal_practice_networks db p") auto
  from mem have "net \<in> set (legal_networks db p)"
    by (simp add: legal_practice_networks_def)
  then have nonempty: "legal_networks db p \<noteq> []" by auto
  have res: "get_network_for_participant policy db p = Inr (Some chosen)"
    using nonempty eq by (simp add: get_network_for_participant_def)
  have "chosen \<in> set (legal_practice_networks db p)" using eq by simp
  then have el: "eligible db p chosen \<and> role chosen = ''practice''"
    by (simp add: set_legal_practice_networks)
  have least: "net_id chosen \<le> net_id other"
    if "eligible db p other \<and> role other = ''practice''" for other
  proof -
    from that have "other \<in> set (chosen # rest)"
      using set_legal_practice_networks [of db p] eq by auto
    moreover have "sorted (map net_id (chosen # rest))"
      using sorted_legal_practice_networks [of db p] eq by simp
    ultimately show ?thesis by auto
  qed
  from eq res el least show ?thesis by blast
qed

theorem practice_networks_first_witness:
  "eligible example_db example_participant \<lparr>net_id = 2, role = ''practice'', full = False\<rparr>
   \<and> get_network_for_participant (\<lambda>nets p. Inl IndexError) example_db example_participant
       = Inr (Some \<lparr>net_id = 2, role = ''practice'', full = False\<rparr>)"
proof -
  have e: "eligible example_db example_participant \<lparr>net_id = 2, role = ''practice'', full = False\<rparr>"
    by (simp add: get_network_for_participant_def legal_networks_def
        legal_practice_networks_def networks_with_space_def networks_participated_in_def
        eligible_def has_node_in_def example_db_def example_participant_def)
  have l: "legal_practice_networks example_db example_participant
             = [\<lparr>net_id = 2, role = ''practice'', full = False\<rparr>]"
    by (simp add: get_network_for_participant_def legal_networks_def
        legal_practice_networks_def networks_with_space_def networks_participated_in_def
        eligible_def has_node_in_def example_db_def example_participant_def)
  from practice_networks_first [OF e, of "\<lambda>nets p. Inl IndexError"] l e show ?thesis by auto
qed

section \<open>Recruitment and failure: proofs\<close>

lemma networks_not_full:
  "(networks db ''all'' (Some False) = []) = (\<not> (\<exists>net \<in> set (network_table db). \<not> full net))"
  by (auto simp: networks_def filter_empty_conv)

text \<open>
  Claim C7. When the configuration yields a recruiter, \<^verbatim>\<open>recruit\<close> raises nothing; if a
  network with \<^verbatim>\<open>full=False\<close> is left it changes nothing, and otherwise its one effect is
  the call closing recruitment.
\<close>

theorem recruit_closes_when_all_full:
  assumes "recruiter config = Inr rc"
  shows "recruit config s =
           (None, if (\<exists>net \<in> set (network_table (store s)). \<not> full net) then s
                  else s\<lparr>calls := calls s @ [CloseRecruitment rc]\<rparr>)"
  using assms by (simp add: recruit_def networks_not_full)

theorem recruit_closes_when_all_full_witness:
  "recruiter example_config = Inr MTurkRecruiter
   \<and> recruit example_config \<lparr>store = full_db, calls = []\<rparr>
       = (None, \<lparr>store = full_db, calls = [CloseRecruitment MTurkRecruiter]\<rparr>)
   \<and> recruit example_config \<lparr>store = example_db, calls = []\<rparr>
       = (None, \<lparr>store = example_db, calls = []\<rparr>)"
proof -
  have r: "recruiter example_config = Inr MTurkRecruiter"
    by (simp add: recruiter_def example_config_def)
  from recruit_closes_when_all_full [OF r, of "\<lparr>store = full_db, calls = []\<rparr>"]
    recruit_closes_when_all_full [OF r, of "\<lparr>store = example_db, calls = []\<rparr>"] r
  show ?thesis by (simp add: full_db_def example_db_def)
qed

lemma node_table_fail_all:
  "node_table (foldl (\<lambda>d nd. fail nd d) db ns) =
     map (\<lambda>m. if node_id m \<in> node_id ` set ns then m\<lparr>failed := True\<rparr> else m) (node_table db)"
proof (induction ns arbitrary: db)
  case Nil
  then show ?case by simp
next
  case (Cons n ns)
  show ?case
    unfolding foldl_Cons Cons.IH
    by (auto simp: fail_def)
qed

lemma other_tables_fail_all:
  "network_table (foldl (\<lambda>d nd. fail nd d) db ns) = network_table db \<and>
   participant_table (foldl (\<lambda>d nd. fail nd d) db ns) = participant_table db"
  by (induction ns arbitrary: db) (simp_all add: fail_def)

lemma fail_participant_all_failed:
  assumes "nd \<in> set (node_table (fail_participant db p))"
    and "participant_id nd = Some (part_id p)"
  shows "failed nd"
proof -
  from assms(1) obtain m where m: "m \<in> set (node_table db)"
    and nd: "nd = (if node_id m \<in> node_id ` set (participant_nodes db p)
                   then m\<lparr>failed := True\<rparr> else m)"
    by (auto simp: fail_participant_def node_table_fail_all)
  show ?thesis
  proof (cases "node_id m \<in> node_id ` set (participant_nodes db p)")
    case True
    with nd show ?thesis by simp
  next
    case False
    with nd have "nd = m" by simp
    with m assms(2) False show ?thesis
      by (auto simp: participant_nodes_def)
  qed
qed

lemma participant_nodes_after:
  "participant_nodes (fail_participant db p) p = []"
  using fail_participant_all_failed [of _ db p]
  by (auto simp: participant_nodes_def filter_empty_conv)

text \<open>
  Claim C8. After \<^verbatim>\<open>fail_participant\<close> every node of the participant is failed; \<^verbatim>\<open>fail\<close> is
  called on nodes with \<^verbatim>\<open>failed=False\<close> only; a second call finds no node to fail and
  leaves the store, and with it the failed nodes, as the first call left them.
\<close>

theorem fail_participant_idempotent:
  "(\<forall>nd \<in> set (node_table (fail_participant db p)).
       participant_id nd = Some (part_id p) \<longrightarrow> failed nd) \<and>
   (\<forall>nd \<in> set (participant_nodes db p). \<not> failed nd) \<and>
   participant_nodes (fail_participant db p) p = [] \<and>
   fail_participant (fail_participant db p) p = fail_participant db p \<and>
   filter failed (node_table (fail_participant (fail_participant db p) p))
     = filter failed (node_table (fail_participant db p))"
proof -
  have again: "fail_participant (fail_participant db p) p = fail_participant db p"
    by (simp add: fail_participant_def [of "fail_participant db p"] participant_nodes_after)
  have "\<forall>nd \<in> set (participant_nodes db p). \<not> failed nd"
    by (simp add: participant_nodes_def)
  with again show ?thesis
    using fail_participant_all_failed [of _ db p] participant_nodes_after [of db p] by auto
qed

theorem fail_participant_idempotent_witness:
  "node_table (fail_participant example_db example_participant) =
     [\<lparr>node_id = 1, network_id = Some 1, participant_id = Some 7, failed = True\<rparr>,
      \<lparr>node_id = 2, network_id = Some 2, participant_id = Some 8, failed = False\<rparr>,
      \<lparr>node_id = 3, network_id = Some 4, participant_id = Some 7, failed = True\<rparr>]
   \<and> participant_nodes example_db example_participant =
     [\<lparr>node_id = 1, network_id = Some 1, participant_id = Some 7, failed = False\<rparr>]
   \<and> fail_participant (fail_participant example_db example_participant) example_participant
       = fail_participant example_db example_participant"
proof -
  have "node_table (fail_participant example_db example_participant) =
     [\<lparr>node_id = 1, network_id = Some 1, participant_id = Some 7, failed = True\<rparr>,
      \<lparr>node_id = 2, network_id = Some 2, participant_id = Some 8, failed = False\<rparr>,
      \<lparr>node_id = 3, network_id = Some 4, participant_id = Some 7, failed = True\<rparr>]"
    by (simp add: fail_participant_def participant_nodes_def fail_def example_db_def
        example_participant_def)
  moreover have "participant_nodes example_db example_participant =
     [\<lparr>node_id = 1, network_id = Some 1, participant_id = Some 7, failed = False\<rparr>]"
    by (simp add: participant_nodes_def example_db_def example_participant_def)
  ultimately show ?thesis
    using fail_participant_idempotent [of example_db example_participant] by simp
qed

section \<open>Missed notifications: proofs\<close>

lemma lower_Approved: "lower ''Approved'' = ''approved''"
  by code_simp

lemma lower_Rejected: "lower ''Rejected'' = ''rejected''"
  by code_simp

lemma missed_loop_append:
  "missed_loop env now (ps @ qs) s =
     (case missed_loop env now ps s of
        (Some e, s') \<Rightarrow> (Some e, s')
      | (None, s') \<Rightarrow> missed_loop env now qs s')"
  by (induction ps arbitrary: s) (auto split: prod.splits option.splits)

text \<open>
  Claim C5. When the loop reaches an overdue participant whose assignment the labour market
  reports as Approved or Rejected, the emergency code raises nothing, sets the status of
  the participant's row to the lower-cased report, commits, sends nothing, and the loop goes
  on with the remaining participants.
\<close>

theorem approved_or_rejected_repaired:
  assumes "too_long env now p"
    and "get_assignment env (assignment_id p) = Inr (a # others)"
    and "AssignmentStatus a = ''Approved'' \<or> AssignmentStatus a = ''Rejected''"
  shows "\<exists>s'. emergency env p s = (None, s')
           \<and> missed_loop env now (p # ps) s = missed_loop env now ps s'
           \<and> session s' =
               map (\<lambda>q. if part_id q = part_id p
                         then q\<lparr>status := lower (AssignmentStatus a)\<rparr> else q) (session s)
           \<and> committed s' = session s'
           \<and> sent s' = sent s
           \<and> (AssignmentStatus a = ''Approved'' \<longrightarrow> lower (AssignmentStatus a) = ''approved'')
           \<and> (AssignmentStatus a = ''Rejected'' \<longrightarrow> lower (AssignmentStatus a) = ''rejected'')"
proof -
  have st: "assignment_status env p = Some (AssignmentStatus a)"
    using assms(2) by (simp add: assignment_status_def)
  define s' where "s' = commit (set_status p (lower (AssignmentStatus a)) s)"
  have em: "emergency env p s = (None, s')"
    using st assms(3) by (auto simp: emergency_def s'_def)
  have loop: "missed_loop env now (p # ps) s = missed_loop env now ps s'"
    using assms(1) em by simp
  have "session s' =
          map (\<lambda>q. if part_id q = part_id p
                    then q\<lparr>status := lower (AssignmentStatus a)\<rparr> else q) (session s)"
    and "committed s' = session s'" and "sent s' = sent s"
    by (simp_all add: s'_def commit_def set_status_def)
  with em loop show ?thesis
    using lower_Approved lower_Rejected by auto
qed

theorem approved_or_rejected_repaired_witness:
  "too_long example_env 4000 (worker 1 ''A1'')
   \<and> emergency example_env (worker 1 ''A1'') working_state =
       (None, \<lparr>session = [(worker 1 ''A1'')\<lparr>status := ''approved''\<rparr>, worker 2 ''A2'', worker 3 ''A3''],
               committed = [(worker 1 ''A1'')\<lparr>status := ''approved''\<rparr>, worker 2 ''A2'', worker 3 ''A3''],
               sent = []\<rparr>)"
proof -
  have t: "too_long example_env 4000 (worker 1 ''A1'')"
    by (simp add: example_env_def working_state_def worker_def too_long_def
        assignment_status_def emergency_def shut_down_def and_then_def set_autorecruit_def
        expire_hit_def send_notification_def set_status_def commit_def
        check_for_missed_notifications_def)
  have g: "get_assignment example_env (assignment_id (worker 1 ''A1''))
             = Inr [\<lparr>AssignmentStatus = ''Approved''\<rparr>]"
    by (simp add: example_env_def working_state_def worker_def too_long_def
        assignment_status_def emergency_def shut_down_def and_then_def set_autorecruit_def
        expire_hit_def send_notification_def set_status_def commit_def
        check_for_missed_notifications_def)
  have a: "AssignmentStatus \<lparr>AssignmentStatus = ''Approved''\<rparr> = ''Approved''
           \<or> AssignmentStatus \<lparr>AssignmentStatus = ''Approved''\<rparr> = ''Rejected''"
    by simp
  from approved_or_rejected_repaired [OF t g a, of working_state "[]"]
  obtain s' where "emergency example_env (worker 1 ''A1'') working_state = (None, s')"
    and "session s' = [(worker 1 ''A1'')\<lparr>status := ''approved''\<rparr>, worker 2 ''A2'', worker 3 ''A3'']"
    and "committed s' = session s'" and "sent s' = []"
    by (auto simp: working_state_def worker_def)
  with t show ?thesis by simp
qed

text \<open>
  Claim C6. When the loop reaches an overdue participant whose assignment the labour market
  reports as Submitted, the emergency code is the posting of an AssignmentSubmitted
  notification for the participant's assignment to the notifications address of the host:
  no row changes, nothing is committed, and with the host set this one call is sent and the
  loop goes on.
\<close>

theorem submitted_notification_resent:
  assumes "too_long env now p"
    and "get_assignment env (assignment_id p) = Inr (a # others)"
    and "AssignmentStatus a = ''Submitted''"
  shows "emergency env p s = send_notification env ''AssignmentSubmitted'' (assignment_id p) s
       \<and> session (snd (emergency env p s)) = session s
       \<and> committed (snd (emergency env p s)) = committed s
       \<and> (\<forall>host. environ env ''HOST'' = Some host \<longrightarrow>
            emergency env p s =
              (None, s\<lparr>sent := sent s @
                 [PostNotification host ''AssignmentSubmitted'' (assignment_id p)]\<rparr>)
            \<and> missed_loop env now (p # ps) s =
                missed_loop env now ps (s\<lparr>sent := sent s @
                 [PostNotification host ''AssignmentSubmitted'' (assignment_id p)]\<rparr>))"
proof -
  have st: "assignment_status env p = Some ''Submitted''"
    using assms(2,3) by (simp add: assignment_status_def)
  have em: "emergency env p s = send_notification env ''AssignmentSubmitted'' (assignment_id p) s"
    using st by (simp add: emergency_def)
  have same: "session (snd (send_notification env ev aid s)) = session s
            \<and> committed (snd (send_notification env ev aid s)) = committed s" for ev aid
    by (simp add: send_notification_def split: option.splits)
  have sent: "send_notification env ev aid s =
                (None, s\<lparr>sent := sent s @ [PostNotification host ev aid]\<rparr>)"
    if "environ env ''HOST'' = Some host" for host ev aid
    using that by (simp add: send_notification_def)
  show ?thesis
    using em same sent assms(1) by simp
qed

theorem submitted_notification_resent_witness:
  "too_long example_env 4000 (worker 2 ''A2'')
   \<and> emergency example_env (worker 2 ''A2'') working_state =
       (None, working_state\<lparr>sent :=
          [PostNotification ''dlgr-abc.herokuapp.com'' ''AssignmentSubmitted'' ''A2'']\<rparr>)"
proof -
  have t: "too_long example_env 4000 (worker 2 ''A2'')"
    by (simp add: example_env_def working_state_def worker_def too_long_def
        assignment_status_def emergency_def shut_down_def and_then_def set_autorecruit_def
        expire_hit_def send_notification_def set_status_def commit_def
        check_for_missed_notifications_def)
  have g: "get_assignment example_env (assignment_id (worker 2 ''A2''))
             = Inr [\<lparr>AssignmentStatus = ''Submitted''\<rparr>]"
    by (simp add: example_env_def working_state_def worker_def too_long_def
        assignment_status_def emergency_def shut_down_def and_then_def set_autorecruit_def
        expire_hit_def send_notification_def set_status_def commit_def
        check_for_missed_notifications_def)
  have h: "environ example_env ''HOST'' = Some ''dlgr-abc.herokuapp.com''"
    by (simp add: example_env_def)
  have p: "assignment_id (worker 2 ''A2'') = ''A2''"
    by (simp add: worker_def)
  have a: "AssignmentStatus \<lparr>AssignmentStatus = ''Submitted''\<rparr> = ''Submitted''"
    by simp
  from submitted_notification_resent [OF t g a, of working_state "[]"] h
  have "emergency example_env (worker 2 ''A2'') working_state =
          (None, working_state\<lparr>sent := sent working_state @
             [PostNotification ''dlgr-abc.herokuapp.com'' ''AssignmentSubmitted''
                (assignment_id (worker 2 ''A2''))]\<rparr>)"
    by blast
  with t p show ?thesis by (simp add: working_state_def)
qed

lemma shut_down_calls:
  assumes "environ env ''HOST'' = Some host"
    and "find (\<lambda>q. part_id q = 1) (session s) = Some first"
  shows "shut_down env p s =
           (None, s\<lparr>sent := sent s @
              [PatchAutoRecruit (take (length host - length ''.herokuapp.com'') host) False,
               ExpireHit (hit_id first),
               PostNotification host ''NotificationMissing'' (assignment_id p)]\<rparr>)"
  using assms
  by (simp add: shut_down_def and_then_def set_autorecruit_def expire_hit_def
      send_notification_def)

text \<open>
  Claim C1, as the code has it. When the query for the assignment of an overdue participant
  raises, or finds no assignment, the status is \<^verbatim>\<open>None\<close> and the emergency code shuts
  everything down in that cycle: with the host set and a participant 1 in the table,
  recruitment is switched off, the HIT of participant 1 is expired and a
  NotificationMissing notification is posted; the rows are unchanged and nothing is
  committed.
\<close>

theorem failed_query_shuts_down:
  assumes "too_long env now p"
    and "get_assignment env (assignment_id p) = Inl e
         \<or> get_assignment env (assignment_id p) = Inr []"
    and "environ env ''HOST'' = Some host"
    and "find (\<lambda>q. part_id q = 1) (session s) = Some first"
  shows "assignment_status env p = None
       \<and> emergency env p s =
           (None, s\<lparr>sent := sent s @
              [PatchAutoRecruit (take (length host - length ''.herokuapp.com'') host) False,
               ExpireHit (hit_id first),
               PostNotification host ''NotificationMissing'' (assignment_id p)]\<rparr>)
       \<and> missed_loop env now (p # ps) s =
           missed_loop env now ps (s\<lparr>sent := sent s @
              [PatchAutoRecruit (take (length host - length ''.herokuapp.com'') host) False,
               ExpireHit (hit_id first),
               PostNotification host ''NotificationMissing'' (assignment_id p)]\<rparr>)
       \<and> session (snd (emergency env p s)) = session s
       \<and> committed (snd (emergency env p s)) = committed s"
proof -
  have st: "assignment_status env p = None"
    using assms(2) by (auto simp: assignment_status_def)
  then have "emergency env p s = shut_down env p s"
    by (simp add: emergency_def)
  with st assms(1) shut_down_calls [OF assms(3,4)] show ?thesis by simp
qed

theorem failed_query_shuts_down_witness:
  "too_long example_env 4000 (worker 3 ''A3'')
   \<and> get_assignment example_env (assignment_id (worker 3 ''A3'')) = Inl MTurkRequestError
   \<and> emergency example_env (worker 3 ''A3'') working_state =
       (None, working_state\<lparr>sent :=
          [PatchAutoRecruit ''dlgr-abc'' False, ExpireHit ''H1'',
           PostNotification ''dlgr-abc.herokuapp.com'' ''NotificationMissing'' ''A3'']\<rparr>)"
proof -
  have t: "too_long example_env 4000 (worker 3 ''A3'')"
    by (simp add: example_env_def working_state_def worker_def too_long_def
        assignment_status_def emergency_def shut_down_def and_then_def set_autorecruit_def
        expire_hit_def send_notification_def set_status_def commit_def
        check_for_missed_notifications_def)
  have g: "get_assignment example_env (assignment_id (worker 3 ''A3'')) = Inl MTurkRequestError"
    by (simp add: example_env_def working_state_def worker_def too_long_def
        assignment_status_def emergency_def shut_down_def and_then_def set_autorecruit_def
        expire_hit_def send_notification_def set_status_def commit_def
        check_for_missed_notifications_def)
  then have g': "get_assignment example_env (assignment_id (worker 3 ''A3'')) = Inl MTurkRequestError
      \<or> get_assignment example_env (assignment_id (worker 3 ''A3'')) = Inr []"
    by simp
  have h: "environ example_env ''HOST'' = Some ''dlgr-abc.herokuapp.com''"
    by (simp add: example_env_def)
  have f: "find (\<lambda>q. part_id q = 1) (session working_state) = Some (worker 1 ''A1'')"
    by (simp add: working_state_def worker_def)
  from failed_query_shuts_down [OF t g' h f, of "[]"] t g
  show ?thesis by (simp add: working_state_def worker_def)
qed

text \<open>
  Claim C1, as it is stated, fails: a working participant is overdue, the query raises, and
  the check switches recruitment off, expires the HIT and posts NotificationMissing.
\<close>

theorem failed_query_counterexample:
  "status (worker 3 ''A3'') = ''working''
   \<and> too_long example_env 4000 (worker 3 ''A3'')
   \<and> get_assignment example_env (assignment_id (worker 3 ''A3'')) = Inl MTurkRequestError
   \<and> check_for_missed_notifications example_env 4000
        \<lparr>session = [worker 3 ''A3'', worker 1 ''A1''],
         committed = [worker 3 ''A3'', worker 1 ''A1''], sent = []\<rparr> =
       (None,
        \<lparr>session = [worker 3 ''A3'', (worker 1 ''A1'')\<lparr>status := ''approved''\<rparr>],
         committed = [worker 3 ''A3'', (worker 1 ''A1'')\<lparr>status := ''approved''\<rparr>],
         sent = [PatchAutoRecruit ''dlgr-abc'' False, ExpireHit ''H1'',
                 PostNotification ''dlgr-abc.herokuapp.com'' ''NotificationMissing'' ''A3'']\<rparr>)"
  by (simp add: example_env_def working_state_def worker_def too_long_def
      assignment_status_def emergency_def shut_down_def and_then_def set_autorecruit_def
      expire_hit_def send_notification_def set_status_def commit_def
      check_for_missed_notifications_def lower_Approved)

section \<open>Bad data: proofs\<close>

lemma sort_by_end_time_ok:
  assumes "\<forall>p \<in> set ps. end_time p \<noteq> None"
  shows "sort_by_end_time ps = Inr (sort_key end_time ps)"
  using assms by (auto simp: sort_by_end_time_def list_ex_iff)

lemma slice_from_last:
  assumes "0 < n"
  shows "slice_from (- n) xs = rev (take (nat n) (rev xs))"
proof -
  have "slice_from (- n) xs = drop (nat (int (length xs) - n)) xs"
    using assms by (simp add: slice_from_def)
  also have "nat (int (length xs) - n) = length xs - nat n"
    using assms by linarith
  finally show ?thesis by (simp add: take_rev)
qed

lemma slice_from_short:
  assumes "int (length xs) < n"
  shows "slice_from (- n) xs = xs"
  using assms by (simp add: slice_from_def)

lemma bad_data_action:
  assumes "environ env ''HOST'' = Some host"
    and "find (\<lambda>q. part_id q = 1) (session s) = Some first"
  shows "and_then (set_autorecruit env False) expire_hit s =
           (None, s\<lparr>sent := sent s @
              [PatchAutoRecruit (take (length host - length ''.herokuapp.com'') host) False,
               ExpireHit (hit_id first)]\<rparr>)"
  using assms by (simp add: and_then_def set_autorecruit_def expire_hit_def)

text \<open>
  Claim C4, as the code has it. With a positive threshold \<open>N\<close>, end times on all
  terminated participants, the host set and a participant 1 in the table, the check looks
  at the \<open>N\<close> most recently terminated participants (all of them when there are fewer), and
  raises nothing; if every one of them has the status bad_data, it switches recruitment off
  and expires the HIT of participant 1, and otherwise it does nothing.
\<close>

theorem bad_data_window:
  assumes "0 < bad_data_threshold env"
    and "\<forall>p \<in> set (session s). status p \<noteq> ''working'' \<longrightarrow> end_time p \<noteq> None"
    and "environ env ''HOST'' = Some host"
    and "find (\<lambda>q. part_id q = 1) (session s) = Some first"
  shows "recent_participants env s =
           Inr (rev (spec_most_recent_terminated (nat (bad_data_threshold env)) (session s)))
       \<and> check_for_bad_data env s =
           (None,
            if (\<forall>p \<in> set (spec_most_recent_terminated (nat (bad_data_threshold env)) (session s)).
                  status p = ''bad_data'')
            then s\<lparr>sent := sent s @
                   [PatchAutoRecruit (take (length host - length ''.herokuapp.com'') host) False,
                    ExpireHit (hit_id first)]\<rparr>
            else s)"
proof -
  let ?T = "filter (\<lambda>p. status p \<noteq> ''working'') (session s)"
  have "sort_by_end_time ?T = Inr (sort_key end_time ?T)"
    using assms(2) by (intro sort_by_end_time_ok) simp
  then have win: "recent_participants env s =
      Inr (rev (spec_most_recent_terminated (nat (bad_data_threshold env)) (session s)))"
    using slice_from_last [OF assms(1)]
    by (simp add: recent_participants_def spec_most_recent_terminated_def)
  show ?thesis
    unfolding check_for_bad_data_def win
    using bad_data_action [OF assms(3,4)] by (simp add: list_all_iff)
qed

theorem bad_data_window_witness:
  "0 < bad_data_threshold example_env
   \<and> spec_most_recent_terminated 3 (session bad_data_state)
       = [finished 3 ''A3'' 30, finished 2 ''A2'' 20, finished 1 ''A1'' 10]
   \<and> check_for_bad_data example_env bad_data_state =
       (None, bad_data_state\<lparr>sent := [PatchAutoRecruit ''dlgr-abc'' False, ExpireHit ''H1'']\<rparr>)"
proof -
  have n: "0 < bad_data_threshold example_env"
    by (simp add: example_env_def)
  have e: "\<forall>p \<in> set (session bad_data_state). status p \<noteq> ''working'' \<longrightarrow> end_time p \<noteq> None"
    by (simp add: bad_data_state_def finished_def latecomer_def)
  have h: "environ example_env ''HOST'' = Some ''dlgr-abc.herokuapp.com''"
    by (simp add: example_env_def)
  have f: "find (\<lambda>q. part_id q = 1) (session bad_data_state) = Some (finished 1 ''A1'' 10)"
    by (simp add: bad_data_state_def finished_def)
  have w: "spec_most_recent_terminated 3 (session bad_data_state)
       = [finished 3 ''A3'' 30, finished 2 ''A2'' 20, finished 1 ''A1'' 10]"
    by (simp add: spec_most_recent_terminated_def bad_data_state_def finished_def latecomer_def)
  have t: "nat (bad_data_threshold example_env) = 3"
    by (simp add: example_env_def)
  from bad_data_window [OF n e h f] n w
  show ?thesis unfolding t w by (simp add: finished_def bad_data_state_def)
qed

text \<open>
  Claim C4, as it is stated, fails: the three most recently terminated participants have bad
  data, the most recent open assignment is that of participant 4, and what the check
  expires is the HIT of participant 1, neither that assignment nor its HIT.
\<close>

theorem most_recent_open_counterexample:
  "spec_most_recent_open (session bad_data_state) = Some latecomer
   \<and> check_for_bad_data example_env bad_data_state =
       (None, bad_data_state\<lparr>sent := [PatchAutoRecruit ''dlgr-abc'' False, ExpireHit ''H1'']\<rparr>)
   \<and> ExpireHit (assignment_id latecomer) \<notin> set (sent (snd (check_for_bad_data example_env bad_data_state)))
   \<and> ExpireHit (hit_id latecomer) \<notin> set (sent (snd (check_for_bad_data example_env bad_data_state)))"
  by (simp add: example_env_def bad_data_state_def finished_def latecomer_def
      check_for_bad_data_def recent_participants_def sort_by_end_time_def slice_from_def
      and_then_def set_autorecruit_def expire_hit_def spec_most_recent_open_def)

text \<open>
  Claim C10. When fewer participants than the threshold have terminated (and those have end
  times), the check looks at all of them and acts exactly when all have bad data. When none
  has terminated, the list is empty, the condition holds, and the check runs
  \<^verbatim>\<open>set_autorecruit(False)\<close> and \<^verbatim>\<open>expire_hit()\<close>: with the host set and a participant 1 in
  the table, recruitment is switched off and the HIT is expired.
\<close>

theorem bad_data_fewer_than_threshold:
  "(int (length (filter (\<lambda>p. status p \<noteq> ''working'') (session s))) < bad_data_threshold env
      \<and> (\<forall>p \<in> set (session s). status p \<noteq> ''working'' \<longrightarrow> end_time p \<noteq> None)
     \<longrightarrow> recent_participants env s =
           Inr (sort_key end_time (filter (\<lambda>p. status p \<noteq> ''working'') (session s)))
       \<and> check_for_bad_data env s =
           (if (\<forall>p \<in> set (session s). status p \<noteq> ''working'' \<longrightarrow> status p = ''bad_data'')
            then and_then (set_autorecruit env False) expire_hit s
            else (None, s)))
   \<and> (filter (\<lambda>p. status p \<noteq> ''working'') (session s) = []
     \<longrightarrow> recent_participants env s = Inr []
       \<and> check_for_bad_data env s = and_then (set_autorecruit env False) expire_hit s
       \<and> (\<forall>host first.
             environ env ''HOST'' = Some host
             \<and> find (\<lambda>q. part_id q = 1) (session s) = Some first
           \<longrightarrow> check_for_bad_data env s =
                 (None, s\<lparr>sent := sent s @
                    [PatchAutoRecruit (take (length host - length ''.herokuapp.com'') host) False,
                     ExpireHit (hit_id first)]\<rparr>)))"
proof (intro conjI impI)
  let ?T = "filter (\<lambda>p. status p \<noteq> ''working'') (session s)"
  assume h: "int (length ?T) < bad_data_threshold env
      \<and> (\<forall>p \<in> set (session s). status p \<noteq> ''working'' \<longrightarrow> end_time p \<noteq> None)"
  then have "sort_by_end_time ?T = Inr (sort_key end_time ?T)"
    by (intro sort_by_end_time_ok) simp
  moreover have "slice_from (- bad_data_threshold env) (sort_key end_time ?T) = sort_key end_time ?T"
    using h by (intro slice_from_short) simp
  ultimately show win: "recent_participants env s = Inr (sort_key end_time ?T)"
    by (simp add: recent_participants_def)
  show "check_for_bad_data env s =
           (if (\<forall>p \<in> set (session s). status p \<noteq> ''working'' \<longrightarrow> status p = ''bad_data'')
            then and_then (set_autorecruit env False) expire_hit s
            else (None, s))"
    unfolding check_for_bad_data_def win by (auto simp: list_all_iff)
next
  assume e: "filter (\<lambda>p. status p \<noteq> ''working'') (session s) = []"
  then show win: "recent_participants env s = Inr []"
    by (simp add: recent_participants_def sort_by_end_time_def slice_from_def)
  then show fire: "check_for_bad_data env s = and_then (set_autorecruit env False) expire_hit s"
    by (simp add: check_for_bad_data_def)
  show "\<forall>host first.
             environ env ''HOST'' = Some host
             \<and> find (\<lambda>q. part_id q = 1) (session s) = Some first
           \<longrightarrow> check_for_bad_data env s =
                 (None, s\<lparr>sent := sent s @
                    [PatchAutoRecruit (take (length host - length ''.herokuapp.com'') host) False,
                     ExpireHit (hit_id first)]\<rparr>)"
    using fire bad_data_action by simp
qed

theorem bad_data_fewer_than_threshold_witness:
  "int (length (filter (\<lambda>p. status p \<noteq> ''working'') (session working_state)))
     < bad_data_threshold example_env
   \<and> filter (\<lambda>p. status p \<noteq> ''working'') (session working_state) = []
   \<and> check_for_bad_data example_env working_state =
       (None, working_state\<lparr>sent := [PatchAutoRecruit ''dlgr-abc'' False, ExpireHit ''H1'']\<rparr>)"
proof -
  have e: "filter (\<lambda>p. status p \<noteq> ''working'') (session working_state) = []"
    by (simp add: working_state_def worker_def)
  have h: "environ example_env ''HOST'' = Some ''dlgr-abc.herokuapp.com''"
    by (simp add: example_env_def)
  have f: "find (\<lambda>q. part_id q = 1) (session working_state) = Some (worker 1 ''A1'')"
    by (simp add: working_state_def worker_def)
  have n: "int (length (filter (\<lambda>p. status p \<noteq> ''working'') (session working_state)))
     < bad_data_threshold example_env"
    unfolding e by (simp add: example_env_def)
  from bad_data_fewer_than_threshold [of working_state example_env] e h f
  have "check_for_bad_data example_env working_state =
          (None, working_state\<lparr>sent := sent working_state @
             [PatchAutoRecruit
                (take (length ''dlgr-abc.herokuapp.com'' - length ''.herokuapp.com'')
                   ''dlgr-abc.herokuapp.com'') False,
              ExpireHit (hit_id (worker 1 ''A1''))]\<rparr>)"
    by blast
  with e n show ?thesis by (simp add: working_state_def worker_def)
qed

section \<open>Completion polling: proofs\<close>

lemma status_url_fixed: "str_format ''/summary'' [u] = Inr ''/summary''"
  by simp

lemma experiment_completed_url:
  "\<exists>r. experiment_completed w app_id s = (r, s\<lparr>calls := calls s @ [HttpGet ''/summary'']\<rparr>)"
  by (auto simp: experiment_completed_def Let_def split: sum.splits json.splits option.splits)

lemma finish_experiment_debug:
  assumes "exp_config ''mode'' = Some ''debug''"
  shows "finish_experiment polls w exp_config app_id s =
           Some (None, s\<lparr>calls := calls s @ [Export app_id True]\<rparr>)"
  using assms by (simp add: finish_experiment_def retrieve_data_def)

lemma finish_experiment_completed:
  assumes "exp_config ''mode'' \<noteq> Some ''debug''"
    and "requests_get w (length (calls s)) ''/summary'' = Inr (JObj [(''completed'', JBool True)])"
  shows "finish_experiment (Suc polls) w exp_config app_id s =
           Some (None, s\<lparr>calls := calls s @
             [HttpGet ''/summary'', Destroy app_id, Export app_id False]\<rparr>)"
  using assms
  by (simp add: finish_experiment_def experiment_completed_def end_experiment_def
      retrieve_data_def)

lemma example_world_poll:
  "experiment_completed example_world ''abc'' s =
     (Inr (JBool False), s\<lparr>calls := calls s @ [HttpGet ''/summary'']\<rparr>)"
  by (simp add: experiment_completed_def example_world_def)

lemma example_world_waits:
  "wait_for_completion polls example_world ''abc'' s = None"
  by (induction polls arbitrary: s) (simp_all add: example_world_poll)

text \<open>
  Claim C9, at an input where it fails. The status endpoint of the application reports
  completion from the start, and yet outside debug mode \<^verbatim>\<open>_finish_experiment\<close> is still
  polling after any number of polls: the URL it asks is \<^verbatim>\<open>/summary\<close>, the template of
  \<^verbatim>\<open>status_url\<close> having no field for the URL of the application.
\<close>

theorem finish_experiment_never_completes:
  "requests_get example_world n (heroku_url example_world ''abc'' @ ''/summary'')
     = Inr (JObj [(''completed'', JBool True)])
   \<and> finish_experiment polls example_world [''mode'' \<mapsto> ''sandbox''] ''abc'' s = None"
  by (simp add: finish_experiment_def example_world_waits) (simp add: example_world_def)

end
